theory Spec2Isabelle
  imports Main "HOL-Library.Word"
begin

unbundle bit_operations_syntax

section \<open>JavaScript numbers and typed arrays\<close>

text \<open>
  The emulator is TypeScript, so every register is a JavaScript \<^verbatim>\<open>number\<close>. A value is
  an integer, \<^verbatim>\<open>NaN\<close> (the result of arithmetic on \<^verbatim>\<open>undefined\<close>) or \<^verbatim>\<open>undefined\<close>
  (what a typed array returns for an index outside its length). Integers are unbounded
  here; JavaScript's doubles are exact on integers below \<open>2^53\<close>.
\<close>

datatype jsval = Undefined | NaN | Num int

text \<open>\<^verbatim>\<open>ToInt32\<close>, \<^verbatim>\<open>ToUint32\<close> and \<^verbatim>\<open>ToUint8\<close> of ECMAScript.\<close>

definition int32 :: "int \<Rightarrow> int" where
  "int32 n = (n + 2147483648) mod 4294967296 - 2147483648"

fun toInt32 :: "jsval \<Rightarrow> int" where
  "toInt32 (Num n) = int32 n"
| "toInt32 Undefined = 0"
| "toInt32 NaN = 0"

fun toUint32 :: "jsval \<Rightarrow> int" where
  "toUint32 (Num n) = n mod 4294967296"
| "toUint32 Undefined = 0"
| "toUint32 NaN = 0"

fun toUint8 :: "jsval \<Rightarrow> 8 word" where
  "toUint8 (Num n) = word_of_int n"
| "toUint8 Undefined = 0"
| "toUint8 NaN = 0"

text \<open>The operators \<^verbatim>\<open>+\<close> and \<^verbatim>\<open>-\<close>: \<^verbatim>\<open>undefined\<close> becomes \<^verbatim>\<open>NaN\<close>, which is absorbing.\<close>

fun js_add :: "jsval \<Rightarrow> jsval \<Rightarrow> jsval" where
  "js_add (Num a) (Num b) = Num (a + b)"
| "js_add _ _ = NaN"

fun js_sub :: "jsval \<Rightarrow> jsval \<Rightarrow> jsval" where
  "js_sub (Num a) (Num b) = Num (a - b)"
| "js_sub _ _ = NaN"

text \<open>
  The bitwise operators convert both operands with \<^verbatim>\<open>ToInt32\<close> and give a signed 32-bit
  integer; the shifts take the count modulo 32.
\<close>

definition js_and :: "jsval \<Rightarrow> jsval \<Rightarrow> jsval" where
  "js_and a b = Num (toInt32 a AND toInt32 b)"

definition js_or :: "jsval \<Rightarrow> jsval \<Rightarrow> jsval" where
  "js_or a b = Num (toInt32 a OR toInt32 b)"

definition js_xor :: "jsval \<Rightarrow> jsval \<Rightarrow> jsval" where
  "js_xor a b = Num (toInt32 a XOR toInt32 b)"

definition js_shl :: "jsval \<Rightarrow> jsval \<Rightarrow> jsval" where
  "js_shl a b = Num (int32 (toInt32 a * 2 ^ nat (toUint32 b mod 32)))"

definition js_shr :: "jsval \<Rightarrow> jsval \<Rightarrow> jsval" where
  "js_shr a b = Num (toInt32 a div 2 ^ nat (toUint32 b mod 32))"

text \<open>Comparisons: any comparison with \<^verbatim>\<open>NaN\<close> or \<^verbatim>\<open>undefined\<close> is false.\<close>

fun js_gt :: "jsval \<Rightarrow> jsval \<Rightarrow> bool" where
  "js_gt (Num a) (Num b) = (b < a)"
| "js_gt _ _ = False"

fun js_ge :: "jsval \<Rightarrow> jsval \<Rightarrow> bool" where
  "js_ge (Num a) (Num b) = (b \<le> a)"
| "js_ge _ _ = False"

text \<open>Strict equality \<^verbatim>\<open>===\<close>; \<^verbatim>\<open>NaN\<close> is not equal to itself.\<close>

fun js_seq :: "jsval \<Rightarrow> jsval \<Rightarrow> bool" where
  "js_seq (Num a) (Num b) = (a = b)"
| "js_seq Undefined Undefined = True"
| "js_seq _ _ = False"

text \<open>
  A \<^verbatim>\<open>Uint8Array\<close> read at a number gives \<^verbatim>\<open>undefined\<close> outside the array, and a write
  outside it is ignored; a write inside stores the value modulo 256. The key \<^verbatim>\<open>NaN\<close> is a
  numeric key that is never a valid index. The key \<^verbatim>\<open>undefined\<close> is not numeric: it names
  an ordinary property of the array object, which a write creates and a read returns.
  The opcode array \<^verbatim>\<open>ops\<close> has any length and is a list of bytes; nothing writes it, and
  it is taken to have no property of its own besides its elements.
\<close>

definition ops_get :: "8 word list \<Rightarrow> jsval \<Rightarrow> jsval" where
  "ops_get a i = (case i of
     Num n \<Rightarrow> if 0 \<le> n \<and> n < int (length a) then Num (uint (a ! nat n)) else Undefined
   | Undefined \<Rightarrow> Undefined
   | NaN \<Rightarrow> Undefined)"

section \<open>The CPU state\<close>

text \<open>
  The fields of class \<^verbatim>\<open>CPU\<close>. The registers are numbers; the flags have the type
  \<^verbatim>\<open>0 | 1\<close> and are only ever assigned these literals, so they are integers. The memory
  \<^verbatim>\<open>mem\<close> is a \<^verbatim>\<open>Uint8Array\<close> of the fixed length \<^verbatim>\<open>0x10000\<close>: the field \<open>mem\<close> holds its
  elements, a function from the index to the byte that is read and written only below
  that length, and the field \<open>mem_undefined\<close> holds the ordinary property \<^verbatim>\<open>undefined\<close> of
  the same array object (\<^verbatim>\<open>undefined\<close> as long as nothing has stored there).
\<close>

record cpu =
  A :: jsval
  X :: jsval
  Y :: jsval
  SP :: jsval
  PC :: jsval
  N :: int
  V :: int
  B5 :: int
  B4 :: int
  D :: int
  I :: int
  Z :: int
  C :: int
  mem :: "int \<Rightarrow> 8 word"
  mem_undefined :: jsval
  ops :: "8 word list"

text \<open>The field initialisers and the constructor: \<^verbatim>\<open>A\<close> starts at \<^verbatim>\<open>0x01ff\<close>.\<close>

definition CPU_new :: "8 word list \<Rightarrow> cpu" where
  "CPU_new opcodes = \<lparr> A = Num 511, X = Num 0, Y = Num 0, SP = Num 0, PC = Num 0,
     N = 0, V = 0, B5 = 0, B4 = 0, D = 0, I = 0, Z = 0, C = 0,
     mem = (\<lambda>_. 0), mem_undefined = Undefined, ops = opcodes \<rparr>"

text \<open>The read \<^verbatim>\<open>this.mem[i]\<close> and the assignment \<^verbatim>\<open>this.mem[i] = v\<close>.\<close>

definition mem_get :: "cpu \<Rightarrow> jsval \<Rightarrow> jsval" where
  "mem_get s i = (case i of
     Num n \<Rightarrow> if 0 \<le> n \<and> n < 65536 then Num (uint (mem s n)) else Undefined
   | Undefined \<Rightarrow> mem_undefined s
   | NaN \<Rightarrow> Undefined)"

definition mem_set :: "cpu \<Rightarrow> jsval \<Rightarrow> jsval \<Rightarrow> cpu" where
  "mem_set s i v = (case i of
     Num n \<Rightarrow> if 0 \<le> n \<and> n < 65536 then s\<lparr>mem := (mem s)(n := toUint8 v)\<rparr> else s
   | Undefined \<Rightarrow> s\<lparr>mem_undefined := v\<rparr>
   | NaN \<Rightarrow> s)"

definition loadOpCode :: "cpu \<Rightarrow> jsval \<Rightarrow> jsval" where
  "loadOpCode s pc = ops_get (ops s) pc"

section \<open>Instruction handlers\<close>

text \<open>A handler takes the operand, changes the CPU and returns its extra cycles.\<close>

type_synonym OpCodeFunc = "cpu \<Rightarrow> jsval \<Rightarrow> int \<times> cpu"

definition ADC :: OpCodeFunc where
  "ADC s oper =
    (let result = js_add (js_add (A s) oper) (Num (C s));
         s1 = s\<lparr>C := (if js_gt result (Num 255) then 1 else 0)\<rparr>;
         result = js_and result (Num 255);
         s2 = s1\<lparr>V := (if js_gt (js_and (js_and (js_xor result oper) (js_xor (A s1) oper)) (Num 128)) (Num 0)
                        then 1 else 0)\<rparr>;
         s3 = s2\<lparr>N := (if js_gt (js_and result (Num 128)) (Num 0) then 1 else 0)\<rparr>;
         s4 = s3\<lparr>Z := (if js_seq result (Num 0) then 1 else 0)\<rparr>;
         s5 = s4\<lparr>A := result\<rparr>
     in (0, s5))"

definition AND_op :: OpCodeFunc where
  "AND_op s oper =
    (let result = js_and (A s) oper;
         s1 = s\<lparr>N := (if js_gt (js_and result (Num 128)) (Num 0) then 1 else 0)\<rparr>;
         s2 = s1\<lparr>Z := (if js_seq result (Num 0) then 1 else 0)\<rparr>;
         s3 = s2\<lparr>A := result\<rparr>
     in (0, s3))"

definition ASL :: OpCodeFunc where
  "ASL s oper =
    (let result = js_shl (A s) (Num 1);
         s1 = s\<lparr>C := (if js_gt result (Num 255) then 1 else 0)\<rparr>;
         result = js_and result (Num 255);
         s2 = s1\<lparr>N := (if js_gt (js_and result (Num 128)) (Num 0) then 1 else 0)\<rparr>;
         s3 = s2\<lparr>Z := (if js_seq result (Num 0) then 1 else 0)\<rparr>;
         s4 = s3\<lparr>A := result\<rparr>
     in (0, s4))"

text \<open>
  \<^verbatim>\<open>branch\<close>: the offset is added as it is when it is above \<^verbatim>\<open>0x7f\<close>, and 256 is
  subtracted otherwise.
\<close>

definition branch :: "cpu \<Rightarrow> jsval \<Rightarrow> int \<times> cpu" where
  "branch s oper =
    (let result = (if js_gt oper (Num 127) then js_add (PC s) oper
                   else js_add (js_sub (PC s) (Num 256)) oper);
         cycles = (if js_seq (js_and result (Num 65280)) (js_and (PC s) (Num 65280)) then 1 else 2)
     in (cycles, s\<lparr>PC := result\<rparr>))"

definition BCC :: OpCodeFunc where
  "BCC s oper = (if C s = 0 then branch s oper else (0, s))"

definition BCS :: OpCodeFunc where
  "BCS s oper = (if C s \<noteq> 0 then branch s oper else (0, s))"

definition BEQ :: OpCodeFunc where
  "BEQ s oper = (if Z s \<noteq> 0 then branch s oper else (0, s))"

definition BIT :: OpCodeFunc where
  "BIT s oper =
    (let result = js_and (A s) oper;
         s1 = s\<lparr>Z := (if js_seq result (Num 0) then 1 else 0)\<rparr>;
         s2 = s1\<lparr>N := (if js_seq (js_and result (Num 128)) (Num 1) then 1 else 0)\<rparr>;
         s3 = s2\<lparr>V := (if js_seq (js_and result (Num 64)) (Num 1) then 1 else 0)\<rparr>
     in (0, s3))"

definition BMI :: OpCodeFunc where
  "BMI s oper = (if N s \<noteq> 0 then branch s oper else (0, s))"

definition BNE :: OpCodeFunc where
  "BNE s oper = (if Z s \<noteq> 0 then branch s oper else (0, s))"

definition BPL :: OpCodeFunc where
  "BPL s oper = (if N s = 0 then branch s oper else (0, s))"

text \<open>\<^verbatim>\<open>push\<close> stores at index \<^verbatim>\<open>SP\<close> itself, then keeps \<^verbatim>\<open>SP\<close> as \<^verbatim>\<open>0x0100 | low byte\<close>.\<close>

definition push :: "cpu \<Rightarrow> jsval \<Rightarrow> cpu" where
  "push s v =
    (let s1 = mem_set s (SP s) v;
         s2 = s1\<lparr>SP := js_sub (SP s1) (Num 1)\<rparr>
     in s2\<lparr>SP := js_or (js_and (SP s2) (Num 255)) (Num 256)\<rparr>)"

definition packSR :: "cpu \<Rightarrow> jsval" where
  "packSR s =
    js_or (js_or (js_or (js_or (js_or (js_or (js_or
      (Num (C s))
      (js_shl (Num (Z s)) (Num 1)))
      (js_shl (Num (I s)) (Num 2)))
      (js_shl (Num (D s)) (Num 3)))
      (js_shl (Num (B4 s)) (Num 4)))
      (js_shl (Num (B5 s)) (Num 5)))
      (js_shl (Num (V s)) (Num 6)))
      (js_shl (Num (N s)) (Num 7))"

definition BRK :: OpCodeFunc where
  "BRK s oper =
    (let s1 = push s (js_add (PC s) (Num 2));
         s2 = push s1 (packSR s1);
         s3 = s2\<lparr>I := 1\<rparr>
     in (0, s3))"

definition BVC :: OpCodeFunc where
  "BVC s oper = (if V s = 0 then branch s oper else (0, s))"

definition BVS :: OpCodeFunc where
  "BVS s oper = (if V s = 1 then branch s oper else (0, s))"

definition CLC :: OpCodeFunc where
  "CLC s oper = (0, s\<lparr>C := 0\<rparr>)"

definition CLD :: OpCodeFunc where
  "CLD s oper = (0, s\<lparr>D := 0\<rparr>)"

definition CLI :: OpCodeFunc where
  "CLI s oper = (0, s\<lparr>I := 0\<rparr>)"

definition CLV :: OpCodeFunc where
  "CLV s oper = (0, s\<lparr>V := 0\<rparr>)"

definition CMP :: OpCodeFunc where
  "CMP s oper =
    (let result = js_sub (A s) oper;
         s1 = s\<lparr>C := (if js_ge result (Num 0) then 1 else 0)\<rparr>;
         s2 = s1\<lparr>N := (if js_seq (js_and (js_shr result (Num 7)) (Num 1)) (Num 1) then 1 else 0)\<rparr>;
         s3 = s2\<lparr>Z := (if js_seq (js_and result (Num 255)) (Num 0) then 1 else 0)\<rparr>
     in (0, s3))"

definition CPX :: OpCodeFunc where
  "CPX s oper =
    (let result = js_sub (X s) oper;
         s1 = s\<lparr>C := (if js_ge result (Num 0) then 1 else 0)\<rparr>;
         s2 = s1\<lparr>N := (if js_seq (js_and (js_shr result (Num 7)) (Num 1)) (Num 1) then 1 else 0)\<rparr>;
         s3 = s2\<lparr>Z := (if js_seq (js_and result (Num 255)) (Num 0) then 1 else 0)\<rparr>
     in (0, s3))"

definition CPY :: OpCodeFunc where
  "CPY s oper =
    (let result = js_sub (Y s) oper;
         s1 = s\<lparr>C := (if js_ge result (Num 0) then 1 else 0)\<rparr>;
         s2 = s1\<lparr>N := (if js_seq (js_and (js_shr result (Num 7)) (Num 1)) (Num 1) then 1 else 0)\<rparr>;
         s3 = s2\<lparr>Z := (if js_seq (js_and result (Num 255)) (Num 0) then 1 else 0)\<rparr>
     in (0, s3))"

section \<open>The opcode table\<close>

text \<open>The numeric enum \<^verbatim>\<open>AddrMode\<close>: its members are the numbers 0 to 12, in this order.\<close>

abbreviation (input) RELATIVE :: int where "RELATIVE \<equiv> 0"
abbreviation (input) ACCUMULATOR :: int where "ACCUMULATOR \<equiv> 1"
abbreviation (input) IMPLIED :: int where "IMPLIED \<equiv> 2"
abbreviation (input) IMMEDIATE :: int where "IMMEDIATE \<equiv> 3"
abbreviation (input) INDIRECT :: int where "INDIRECT \<equiv> 4"
abbreviation (input) X_INDIRECT :: int where "X_INDIRECT \<equiv> 5"
abbreviation (input) INDIRECT_Y :: int where "INDIRECT_Y \<equiv> 6"
abbreviation (input) ZEROPAGE :: int where "ZEROPAGE \<equiv> 7"
abbreviation (input) ZEROPAGE_X :: int where "ZEROPAGE_X \<equiv> 8"
abbreviation (input) ZEROPAGE_Y :: int where "ZEROPAGE_Y \<equiv> 9"
abbreviation (input) ABSOLUTE :: int where "ABSOLUTE \<equiv> 10"
abbreviation (input) ABSOLUTE_X :: int where "ABSOLUTE_X \<equiv> 11"
abbreviation (input) ABSOLUTE_Y :: int where "ABSOLUTE_Y \<equiv> 12"

record OpCodeInfo =
  opc :: int
  bytes :: int
  cycles :: int
  addr :: int
  op :: OpCodeFunc

type_synonym OpCodeMap = "int \<rightharpoonup> OpCodeInfo"

text \<open>
  \<^verbatim>\<open>addOpCode(op, opc, addr, bytes, cycles)\<close> stores its parameters under the key \<^verbatim>\<open>opc\<close>.
  Its third parameter is the addressing mode, its fourth the byte length and its fifth
  the cycle count.
\<close>

definition addOpCode :: "OpCodeMap \<Rightarrow> OpCodeFunc \<Rightarrow> int \<Rightarrow> int \<Rightarrow> int \<Rightarrow> int \<Rightarrow> OpCodeMap" where
  "addOpCode m op' opc' addr' bytes' cycles' =
     m(opc' \<mapsto> \<lparr> opc = opc', bytes = bytes', cycles = cycles', addr = addr', op = op' \<rparr>)"

text \<open>
  The calls of \<^verbatim>\<open>initOpCodeMap\<close>, in the order of the source and with the arguments in
  the positions the source writes them: handler, opcode, then two numbers, then a member
  of \<^verbatim>\<open>AddrMode\<close>.
\<close>

definition opCodeCalls :: "(OpCodeFunc \<times> int \<times> int \<times> int \<times> int) list" where
  "opCodeCalls = [
    (ADC, 105, 2, 2, IMMEDIATE),
    (ADC, 101, 2, 3, ZEROPAGE),
    (ADC, 117, 2, 4, ZEROPAGE_X),
    (ADC, 109, 3, 4, ABSOLUTE),
    (ADC, 125, 3, 4, ABSOLUTE_X),
    (ADC, 121, 3, 4, ABSOLUTE_Y),
    (ADC, 97, 2, 6, X_INDIRECT),
    (ADC, 113, 2, 5, INDIRECT_Y),
    (AND_op, 41, 2, 2, IMMEDIATE),
    (AND_op, 37, 2, 3, ZEROPAGE),
    (AND_op, 53, 2, 4, ZEROPAGE_X),
    (AND_op, 45, 3, 4, ABSOLUTE),
    (AND_op, 61, 3, 4, ABSOLUTE_X),
    (AND_op, 57, 3, 4, ABSOLUTE_Y),
    (AND_op, 33, 2, 6, X_INDIRECT),
    (AND_op, 49, 2, 5, INDIRECT_Y),
    (ASL, 10, 1, 2, ACCUMULATOR),
    (ASL, 6, 2, 5, ZEROPAGE),
    (ASL, 22, 2, 6, ZEROPAGE_X),
    (ASL, 14, 3, 6, ABSOLUTE),
    (ASL, 30, 3, 7, ABSOLUTE_X),
    (BCC, 144, 2, 2, RELATIVE),
    (BCS, 176, 2, 2, RELATIVE),
    (BEQ, 240, 2, 2, RELATIVE),
    (BIT, 36, 2, 3, ZEROPAGE),
    (BIT, 44, 3, 4, ABSOLUTE),
    (BMI, 48, 2, 2, RELATIVE),
    (BNE, 208, 2, 2, RELATIVE),
    (BPL, 16, 2, 2, RELATIVE),
    (BRK, 0, 1, 7, IMPLIED),
    (BVC, 80, 2, 2, RELATIVE),
    (BVS, 112, 2, 2, RELATIVE),
    (CLC, 24, 1, 2, IMPLIED),
    (CLD, 216, 1, 2, IMPLIED),
    (CLI, 88, 1, 2, IMPLIED),
    (CLV, 184, 1, 2, IMPLIED),
    (CMP, 201, 2, 2, IMMEDIATE),
    (CMP, 197, 2, 3, ZEROPAGE),
    (CMP, 213, 2, 4, ZEROPAGE_X),
    (CMP, 205, 3, 4, ABSOLUTE),
    (CMP, 221, 3, 4, ABSOLUTE_X),
    (CMP, 217, 3, 4, ABSOLUTE_Y),
    (CMP, 193, 2, 6, X_INDIRECT),
    (CMP, 209, 2, 5, INDIRECT_Y),
    (CPX, 224, 2, 2, IMMEDIATE),
    (CPX, 228, 2, 3, ZEROPAGE),
    (CPX, 236, 3, 4, ABSOLUTE),
    (CPY, 192, 2, 2, IMMEDIATE),
    (CPY, 196, 2, 3, ZEROPAGE),
    (CPY, 204, 3, 4, ABSOLUTE)
  ]"

definition initOpCodeMap :: OpCodeMap where
  "initOpCodeMap =
     foldl (\<lambda>m (f, a1, a2, a3, a4). addOpCode m f a1 a2 a3 a4) Map.empty opCodeCalls"

section \<open>Addressing\<close>

text \<open>
  The \<^verbatim>\<open>switch\<close> of \<^verbatim>\<open>address\<close>. Each case works on the pair of the locals \<^verbatim>\<open>value\<close>
  and \<^verbatim>\<open>cycleAdd\<close>, which start at 0. The case \<^verbatim>\<open>ABSOLUTE_X\<close> has no \<^verbatim>\<open>break\<close>, so its
  result runs on through the case \<^verbatim>\<open>ABSOLUTE_Y\<close>. There is no case for \<^verbatim>\<open>RELATIVE\<close>,
  \<^verbatim>\<open>ACCUMULATOR\<close> and \<^verbatim>\<open>IMPLIED\<close>.
\<close>

definition case_ABSOLUTE_Y :: "cpu \<Rightarrow> jsval \<Rightarrow> jsval \<times> int \<Rightarrow> jsval \<times> int" where
  "case_ABSOLUTE_Y s arg vc =
    (let cycleAdd = (if \<not> js_seq (js_and arg (Num 65280)) (js_and (js_add arg (Y s)) (Num 65280))
                     then 1 else snd vc);
         val = mem_get s (js_add arg (Y s))
     in (val, cycleAdd))"

definition case_ABSOLUTE_X :: "cpu \<Rightarrow> jsval \<Rightarrow> jsval \<times> int \<Rightarrow> jsval \<times> int" where
  "case_ABSOLUTE_X s arg vc =
    (let cycleAdd = (if \<not> js_seq (js_and arg (Num 65280)) (js_and (js_add arg (X s)) (Num 65280))
                     then 1 else snd vc);
         val = mem_get s (js_add arg (X s))
     in case_ABSOLUTE_Y s arg (val, cycleAdd))"

definition address :: "cpu \<Rightarrow> int \<Rightarrow> jsval \<Rightarrow> jsval \<times> int" where
  "address s addrMode arg =
    (if addrMode = ABSOLUTE then (mem_get s arg, 0)
     else if addrMode = ABSOLUTE_X then case_ABSOLUTE_X s arg (Num 0, 0)
     else if addrMode = ABSOLUTE_Y then case_ABSOLUTE_Y s arg (Num 0, 0)
     else if addrMode = IMMEDIATE then (arg, 0)
     else if addrMode = INDIRECT then
       (let ll = mem_get s arg;
            hh = mem_get s (js_and (js_add arg (Num 1)) (Num 255))
        in (mem_get s (js_shl hh (js_add (Num 8) ll)), 0))
     else if addrMode = X_INDIRECT then
       (let arg = js_and arg (Num 255);
            ll = mem_get s (js_and (js_add arg (X s)) (Num 255));
            hh = mem_get s (js_and (js_add (js_add arg (X s)) (Num 1)) (Num 255))
        in (mem_get s (js_shl hh (js_add (Num 8) ll)), 0))
     else if addrMode = INDIRECT_Y then
       (let arg = js_and arg (Num 255);
            ll = mem_get s arg;
            hh = mem_get s (js_and (js_add arg (Num 1)) (Num 255));
            addr' = js_shl hh (js_add (Num 8) ll);
            cycleAdd = (if \<not> js_seq (js_and addr' (Num 65280)) (js_and (js_add addr' (Y s)) (Num 65280))
                        then 1 else 0)
        in (mem_get s (js_add addr' (Y s)), cycleAdd))
     else if addrMode = ZEROPAGE then (mem_get s (js_and arg (Num 255)), 0)
     else if addrMode = ZEROPAGE_X then (mem_get s (js_and (js_add arg (X s)) (Num 255)), 0)
     else if addrMode = ZEROPAGE_Y then (mem_get s (js_and (js_add arg (Y s)) (Num 255)), 0)
     else (Num 0, 0))"

section \<open>One step\<close>

text \<open>
  \<^verbatim>\<open>runop\<close>. Destructuring \<^verbatim>\<open>this.opCodeMap[opc]\<close> throws a \<^verbatim>\<open>TypeError\<close> when the table
  has no entry for \<^verbatim>\<open>opc\<close> (also when \<^verbatim>\<open>opc\<close> is \<^verbatim>\<open>undefined\<close>, \<^verbatim>\<open>PC\<close> being outside the
  opcode array); nothing catches it. The result is the error or the cycle count, with
  the CPU as the call leaves it. A handler returns a number, so \<^verbatim>\<open>op(oper) || 0\<close> is
  that number.
\<close>

datatype error = TypeError

definition lookupOp :: "jsval \<Rightarrow> OpCodeInfo option" where
  "lookupOp k = (case k of Num n \<Rightarrow> initOpCodeMap n | Undefined \<Rightarrow> None | NaN \<Rightarrow> None)"

definition runop :: "cpu \<Rightarrow> (error + int) \<times> cpu" where
  "runop s =
    (let opc' = loadOpCode s (PC s) in
     case lookupOp opc' of
       None \<Rightarrow> (Inl TypeError, s)
     | Some info \<Rightarrow>
        (let arg = (if bytes info = 2 then loadOpCode s (js_add (PC s) (Num 1))
                    else if bytes info = 3 then
                      js_shl (loadOpCode s (js_add (PC s) (Num 2)))
                             (js_add (Num 8) (loadOpCode s (js_add (PC s) (Num 1))))
                    else Num 0);
             r = address s (addr info) arg;
             oper = fst r;
             cycleAdd1 = snd r;
             s1 = s\<lparr>PC := js_add (PC s) (Num (bytes info))\<rparr>;
             h = op info s1 oper;
             cycleAdd2 = fst h
         in (Inr (cycles info + cycleAdd1 + cycleAdd2), snd h)))"

section \<open>Properties to be checked\<close>

text \<open>A flag is exactly 0 or 1; a register holds a number of 8 or of 16 bits.\<close>

definition flag01 :: "int \<Rightarrow> bool" where
  "flag01 f = (f = 0 \<or> f = 1)"

definition isByte :: "jsval \<Rightarrow> bool" where
  "isByte v = (case v of Num n \<Rightarrow> 0 \<le> n \<and> n \<le> 255 | Undefined \<Rightarrow> False | NaN \<Rightarrow> False)"

definition isWord16 :: "jsval \<Rightarrow> bool" where
  "isWord16 v = (case v of Num n \<Rightarrow> 0 \<le> n \<and> n \<le> 65535 | Undefined \<Rightarrow> False | NaN \<Rightarrow> False)"

definition flagsInv :: "cpu \<Rightarrow> bool" where
  "flagsInv s = (flag01 (N s) \<and> flag01 (V s) \<and> flag01 (B5 s) \<and> flag01 (B4 s) \<and>
                 flag01 (D s) \<and> flag01 (I s) \<and> flag01 (Z s) \<and> flag01 (C s))"

text \<open>
  The register-file invariant in the words of the specification: the four 8-bit registers
  in \<open>[0,255]\<close>, the program counter in \<open>[0,65535]\<close>, every flag 0 or 1.
\<close>

definition regInv :: "cpu \<Rightarrow> bool" where
  "regInv s = (isByte (A s) \<and> isByte (X s) \<and> isByte (Y s) \<and> isByte (SP s) \<and>
               isWord16 (PC s) \<and> flagsInv s)"

text \<open>
  The form in which \<^verbatim>\<open>push\<close> leaves the stack pointer: \<^verbatim>\<open>0x0100 | low byte\<close>, a number
  from \<^verbatim>\<open>0x0100\<close> to \<^verbatim>\<open>0x01ff\<close>.
\<close>

definition stackPage :: "jsval \<Rightarrow> bool" where
  "stackPage v = (case v of Num n \<Rightarrow> 256 \<le> n \<and> n \<le> 511 | Undefined \<Rightarrow> False | NaN \<Rightarrow> False)"

text \<open>What every handler leaves alone or keeps in range.\<close>

definition keeps :: "OpCodeFunc \<Rightarrow> bool" where
  "keeps h = (\<forall>s oper.
     ops (snd (h s oper)) = ops s \<and>
     X (snd (h s oper)) = X s \<and>
     Y (snd (h s oper)) = Y s \<and>
     (flagsInv s \<longrightarrow> flagsInv (snd (h s oper))) \<and>
     (isByte (A s) \<longrightarrow> isByte (A (snd (h s oper)))) \<and>
     (stackPage (SP s) \<longrightarrow> stackPage (SP (snd (h s oper)))))"

text \<open>
  The two's-complement overflow rule for an 8-bit addition with carry: the sum of the
  operands read as signed bytes, plus the carry, is outside \<open>[-128,127]\<close>.
\<close>

definition signed8 :: "int \<Rightarrow> int" where
  "signed8 n = (if 128 \<le> n then n - 256 else n)"

definition adc_overflow :: "int \<Rightarrow> int \<Rightarrow> int \<Rightarrow> bool" where
  "adc_overflow a b c = (signed8 a + signed8 b + c < - 128 \<or> 127 < signed8 a + signed8 b + c)"

section \<open>Auxiliary facts\<close>

lemma int32_id: "- 2147483648 \<le> n \<Longrightarrow> n < 2147483648 \<Longrightarrow> int32 n = n"
  by (simp add: int32_def)

lemma and_255: "(x::int) AND 255 = x mod 256"
proof -
  have "x AND mask 8 = x mod 2 ^ 8"
    by (simp add: take_bit_eq_mod flip: take_bit_eq_mask)
  then show ?thesis by (simp add: mask_eq_exp_minus_1)
qed

lemma or_256: "0 \<le> x \<Longrightarrow> x < 256 \<Longrightarrow> (x::int) OR 256 = x + 256"
proof -
  assume a: "0 \<le> x" "x < 256"
  have "\<not> bit x 8" using a by (simp add: bit_iff_odd)
  then have "x AND 2 ^ 8 = 0" using and_exp_eq_0_iff_not_bit [of x 8] by simp
  then have "x + 2 ^ 8 = x OR 2 ^ 8" by (rule disjunctive_add_eq_or)
  then show ?thesis by simp
qed

lemma isByte_js_and_255: "isByte (js_and v (Num 255))"
  by (simp add: isByte_def js_and_def and_255 int32_id)

lemma isByte_js_and_left: "isByte a \<Longrightarrow> isByte (js_and a b)"
  by (cases a) (simp_all add: isByte_def js_and_def int32_id AND_upper1 [THEN order_trans])

lemma stackPage_push: "stackPage (SP (push s v))"
  by (simp add: push_def Let_def stackPage_def js_or_def js_and_def and_255 int32_id or_256)

lemma mem_set_frame:
  "ops (mem_set s i v) = ops s" "X (mem_set s i v) = X s" "Y (mem_set s i v) = Y s"
  "A (mem_set s i v) = A s" "SP (mem_set s i v) = SP s" "PC (mem_set s i v) = PC s"
  "N (mem_set s i v) = N s" "V (mem_set s i v) = V s" "B5 (mem_set s i v) = B5 s"
  "B4 (mem_set s i v) = B4 s" "D (mem_set s i v) = D s" "I (mem_set s i v) = I s"
  "Z (mem_set s i v) = Z s" "C (mem_set s i v) = C s"
  by (simp_all add: mem_set_def split: jsval.splits)

lemma push_frame: "ops (push s v) = ops s" "X (push s v) = X s" "Y (push s v) = Y s" "A (push s v) = A s"
  "flagsInv (push s v) = flagsInv s"
  by (simp_all add: push_def Let_def flagsInv_def mem_set_frame)

lemma branch_frame: "ops (snd (branch s v)) = ops s" "X (snd (branch s v)) = X s" 
  "Y (snd (branch s v)) = Y s" "A (snd (branch s v)) = A s" "SP (snd (branch s v)) = SP s"
  "flagsInv (snd (branch s v)) = flagsInv s"
  by (simp_all add: branch_def Let_def flagsInv_def)

lemma keeps_ADC: "keeps ADC"
  by (simp add: keeps_def ADC_def Let_def flagsInv_def flag01_def isByte_js_and_255)

lemma keeps_AND: "keeps AND_op"
  by (simp add: keeps_def AND_op_def Let_def flagsInv_def flag01_def isByte_js_and_left)

lemma keeps_ASL: "keeps ASL"
  by (simp add: keeps_def ASL_def Let_def flagsInv_def flag01_def isByte_js_and_255)

lemma keeps_branches: "keeps BCC" "keeps BCS" "keeps BEQ" "keeps BMI" "keeps BNE" "keeps BPL"
  "keeps BVC" "keeps BVS"
  by (simp_all add: keeps_def BCC_def BCS_def BEQ_def BMI_def BNE_def BPL_def BVC_def BVS_def
      branch_frame)

lemma keeps_BIT: "keeps BIT"
  by (simp add: keeps_def BIT_def Let_def flagsInv_def flag01_def)

lemma push_flags: "N (push s v) = N s" "V (push s v) = V s" "B5 (push s v) = B5 s"
  "B4 (push s v) = B4 s" "D (push s v) = D s" "I (push s v) = I s" "Z (push s v) = Z s"
  "C (push s v) = C s"
  by (simp_all add: push_def Let_def mem_set_frame)

lemma keeps_BRK: "keeps BRK"
  by (simp add: keeps_def BRK_def Let_def push_frame stackPage_push flagsInv_def flag01_def
      push_flags)

lemma keeps_clear: "keeps CLC" "keeps CLD" "keeps CLI" "keeps CLV"
  by (simp_all add: keeps_def CLC_def CLD_def CLI_def CLV_def flagsInv_def flag01_def)

lemma keeps_compare: "keeps CMP" "keeps CPX" "keeps CPY"
  by (simp_all add: keeps_def CMP_def CPX_def CPY_def Let_def flagsInv_def flag01_def)

lemma foldl_addOpCode:
  "foldl (\<lambda>m (f, a1, a2, a3, a4). addOpCode m f a1 a2 a3 a4) m0 cs k = Some info \<Longrightarrow>
   m0 k = Some info \<or> (\<exists>c \<in> set cs. op info = fst c)"
proof (induction cs arbitrary: m0)
  case Nil
  then show ?case by simp
next
  case (Cons c cs)
  obtain f a1 a2 a3 a4 where c: "c = (f, a1, a2, a3, a4)" by (cases c)
  from Cons.prems c have "foldl (\<lambda>m (f, a1, a2, a3, a4). addOpCode m f a1 a2 a3 a4)
      (addOpCode m0 f a1 a2 a3 a4) cs k = Some info" by simp
  from Cons.IH [OF this] show ?case
    by (auto simp: addOpCode_def c split: if_splits)
qed

lemma keeps_table: "initOpCodeMap k = Some info \<Longrightarrow> keeps (op info)"
proof -
  assume "initOpCodeMap k = Some info"
  then have "\<exists>c \<in> set opCodeCalls. op info = fst c"
    using foldl_addOpCode [of Map.empty opCodeCalls k info] by (simp add: initOpCodeMap_def)
  then show ?thesis
    by (auto simp: opCodeCalls_def keeps_ADC keeps_AND keeps_ASL keeps_branches keeps_BIT keeps_BRK
        keeps_clear keeps_compare)
qed

lemma lookupOp_keeps: "lookupOp k = Some info \<Longrightarrow> keeps (op info)"
  by (auto simp: lookupOp_def keeps_table split: jsval.splits)

lemma runop_None: "lookupOp (loadOpCode s (PC s)) = None \<Longrightarrow> runop s = (Inl TypeError, s)"
  by (simp add: runop_def)

lemma runop_Some:
  "lookupOp (loadOpCode s (PC s)) = Some info \<Longrightarrow>
   \<exists>oper n. runop s = (Inr n, snd (op info (s\<lparr>PC := js_add (PC s) (Num (bytes info))\<rparr>) oper))"
  unfolding runop_def Let_def by (simp del: fun_upd_apply) blast

lemma table_ADC_imm: "initOpCodeMap 105 = Some \<lparr> opc = 105, bytes = 2, cycles = 3, addr = 2, op = ADC \<rparr>"
  by (simp add: initOpCodeMap_def opCodeCalls_def addOpCode_def)

lemma table_BRK: "initOpCodeMap 0 = Some \<lparr> opc = 0, bytes = 7, cycles = 2, addr = 1, op = BRK \<rparr>"
  by (simp add: initOpCodeMap_def opCodeCalls_def addOpCode_def)

lemma table_NOP: "initOpCodeMap 234 = None"
  by (simp add: initOpCodeMap_def opCodeCalls_def addOpCode_def)

lemma table_BCC: "initOpCodeMap 144 = Some \<lparr> opc = 144, bytes = 2, cycles = 0, addr = 2, op = BCC \<rparr>"
  by (simp add: initOpCodeMap_def opCodeCalls_def addOpCode_def)

lemma dec_mod: "(255 + l) mod 256 = (l - 1) mod (256::int)"
proof -
  have "(l - 1 + 256) mod 256 = (l - 1) mod (256::int)" by (rule mod_add_self2)
  then show ?thesis by (simp add: algebra_simps)
qed

lemma push_at:
  "SP s = Num p \<Longrightarrow> 0 \<le> p \<Longrightarrow> p < 65536 \<Longrightarrow>
   push s v = s\<lparr>mem := (mem s)(p := toUint8 v), SP := Num (256 + (p - 1) mod 256)\<rparr>"
  by (simp add: push_def mem_set_def js_or_def js_and_def and_255 or_256 int32_id Let_def)

lemma table_CLC: "initOpCodeMap 24 = Some \<lparr> opc = 24, bytes = 2, cycles = 2, addr = 1, op = CLC \<rparr>"
  by (simp add: initOpCodeMap_def opCodeCalls_def addOpCode_def)

section \<open>One step of ADC immediate\<close>

text \<open>
  Claim C1. The opcode bytes \<^verbatim>\<open>0x69 0x05\<close> (ADC immediate) at \<^verbatim>\<open>PC\<close>, with \<^verbatim>\<open>A = 0x10\<close> and the
  carry clear. The table entry for \<^verbatim>\<open>0x69\<close> is made by \<^verbatim>\<open>addOpCode(this.ADC, 0x69, 2, 2,
  AddrMode.IMMEDIATE)\<close>, whose parameters are \<^verbatim>\<open>(op, opc, addr, bytes, cycles)\<close>: the entry has
  the addressing mode 2 (\<^verbatim>\<open>IMPLIED\<close>), 2 bytes and 3 cycles. So the operand is 0, the step
  leaves \<^verbatim>\<open>A\<close> at \<^verbatim>\<open>0x10\<close> and returns 3 cycles, where the claim has \<^verbatim>\<open>A = 0x15\<close> and 2 cycles.
  The flags \<^verbatim>\<open>C\<close>, \<^verbatim>\<open>Z\<close> and \<^verbatim>\<open>N\<close> stay 0.
\<close>

theorem runop_ADC_immediate:
  "runop ((CPU_new [105, 5])\<lparr>A := Num 16\<rparr>) =
     (Inr 3, (CPU_new [105, 5])\<lparr>A := Num 16, PC := Num 2\<rparr>)"
  by (simp add: runop_def lookupOp_def loadOpCode_def ops_get_def table_ADC_imm address_def
      ADC_def CPU_new_def js_and_def js_xor_def int32_def Let_def)

section \<open>The flags of ADC\<close>

text \<open>
  For bytes \<open>a\<close>, \<open>b\<close> and a carry of 0 or 1, \<^verbatim>\<open>ADC\<close> sets the carry exactly when the sum is
  above 255 and stores the sum modulo 256.
\<close>

lemma ADC_carry_result:
  assumes "A s = Num a" "0 \<le> a" "a \<le> 255" "0 \<le> b" "b \<le> 255" "flag01 (C s)"
  shows "C (snd (ADC s (Num b))) = (if 255 < a + b + C s then 1 else 0) \<and>
         A (snd (ADC s (Num b))) = Num ((a + b + C s) mod 256)"
proof -
  from assms have r: "- 2147483648 \<le> a + b + C s" "a + b + C s < 2147483648"
    by (auto simp: flag01_def)
  have m: "int32 255 = 255" by (simp add: int32_def)
  show ?thesis
    by (simp add: ADC_def Let_def assms(1) js_and_def and_255 int32_id [OF r] m)
qed

text \<open>
  Claim C2. \<^verbatim>\<open>ADC\<close> on \<^verbatim>\<open>A = 0x50\<close>, operand \<^verbatim>\<open>0x50\<close>, carry 0: the signed sum 160 is outside
  \<open>[-128,127]\<close>, so the two's-complement rule sets the overflow flag, and the handler
  clears it. The handler tests \<^verbatim>\<open>(result ^ oper) & (A ^ oper) & 0x80\<close>, where the rule is
  \<^verbatim>\<open>(result ^ oper) & (result ^ A) & 0x80\<close>.
\<close>

theorem ADC_overflow_flag:
  "V (snd (ADC ((CPU_new [])\<lparr>A := Num 80\<rparr>) (Num 80))) = 0 \<and> adc_overflow 80 80 0"
  by (simp add: ADC_def CPU_new_def js_and_def js_xor_def int32_def Let_def adc_overflow_def
      signed8_def)

section \<open>Branches\<close>

text \<open>The target \<^verbatim>\<open>branch\<close> computes from a numeric \<^verbatim>\<open>PC\<close> and operand.\<close>

lemma branch_PC:
  "PC s = Num p \<Longrightarrow>
   PC (snd (branch s (Num d))) = Num (if 127 < d then p + d else p - 256 + d)"
  by (simp add: branch_def Let_def)

text \<open>With the zero flag clear, \<^verbatim>\<open>BNE\<close> does nothing, whatever the operand.\<close>

lemma BNE_not_taken: "Z s = 0 \<Longrightarrow> BNE s oper = (0, s)"
  by (simp add: BNE_def)

text \<open>
  Claim C3. The branch handlers at \<^verbatim>\<open>PC = 0x8002\<close>. \<^verbatim>\<open>BNE\<close> with \<^verbatim>\<open>Z = 0\<close> and the operand 2
  leaves the CPU as it is: its test is \<^verbatim>\<open>Z !== 0\<close>, the test of \<^verbatim>\<open>BEQ\<close>. \<^verbatim>\<open>BEQ\<close> with \<^verbatim>\<open>Z = 1\<close>
  is taken, and \<^verbatim>\<open>branch\<close> turns the operand 2 into \<^verbatim>\<open>PC - 254 = 0x7f04\<close> and the operand
  \<^verbatim>\<open>0xfe\<close> into \<^verbatim>\<open>PC + 254 = 0x8100\<close>, where the claim has \<^verbatim>\<open>0x8004\<close> and \<^verbatim>\<open>0x8000\<close>: the test
  \<^verbatim>\<open>oper > 0x7f\<close> selects the two arms the wrong way round.
\<close>

theorem branch_handlers:
  "snd (BNE ((CPU_new [])\<lparr>PC := Num 32770\<rparr>) (Num 2)) = (CPU_new [])\<lparr>PC := Num 32770\<rparr> \<and>
   PC (snd (BEQ ((CPU_new [])\<lparr>PC := Num 32770, Z := 1\<rparr>) (Num 2))) = Num 32516 \<and>
   PC (snd (BEQ ((CPU_new [])\<lparr>PC := Num 32770, Z := 1\<rparr>) (Num 254))) = Num 33024"
  by (simp add: BNE_def BEQ_def branch_def CPU_new_def Let_def)

section \<open>The stack\<close>

text \<open>
  What \<^verbatim>\<open>push\<close> does at a numeric stack pointer \<open>p\<close> inside the memory: the byte goes to the
  address \<open>p\<close> itself, and the stack pointer becomes \<^verbatim>\<open>0x0100 | ((p - 1) & 0xff)\<close>. So an
  8-bit stack pointer sends the byte to page zero, and a stack pointer \<^verbatim>\<open>0x0100 | l\<close> sends
  it to \<^verbatim>\<open>0x0100 + l\<close>.
\<close>

lemma push_stack_page:
  assumes "SP s = Num (256 + l)" "0 \<le> l" "l \<le> 255" "0 \<le> v" "v \<le> 255"
  shows "push s (Num v) =
     s\<lparr>mem := (mem s)(256 + l := word_of_int v), SP := Num (256 + (l - 1) mod 256)\<rparr>"
  using assms
  by (simp add: push_def mem_set_def js_or_def js_and_def and_255 or_256 int32_id Let_def dec_mod)

text \<open>
  Claim C4. The first \<^verbatim>\<open>push\<close> on a new CPU, whose stack pointer is 0, with the byte
  \<^verbatim>\<open>0x42\<close>. The claim writes the byte to \<^verbatim>\<open>0x0100 + SP = 0x0100\<close> and leaves the stack
  pointer at \<^verbatim>\<open>0xff\<close>. \<^verbatim>\<open>push\<close> stores at \<^verbatim>\<open>mem[SP]\<close>: the byte goes to the address 0, the
  address \<^verbatim>\<open>0x0100\<close> keeps its 0, and the stack pointer becomes \<^verbatim>\<open>0x01ff\<close>.
\<close>

theorem push_zero_page:
  "mem (push (CPU_new []) (Num 66)) 256 \<noteq> 66 \<and> mem (push (CPU_new []) (Num 66)) 0 = 66 \<and>
   SP (push (CPU_new []) (Num 66)) = Num 511"
  by (simp add: push_def CPU_new_def mem_set_def js_or_def js_and_def int32_def Let_def)

section \<open>The register ranges\<close>

text \<open>
  The part of the register-file invariant that the code keeps: after the constructor,
  \<^verbatim>\<open>X\<close> and \<^verbatim>\<open>Y\<close> are in \<open>[0,255]\<close> and every flag is 0 or 1, and every completed step keeps
  them so; a completed step also keeps \<^verbatim>\<open>A\<close> in \<open>[0,255]\<close> and the stack pointer in the
  form \<^verbatim>\<open>0x0100 | low byte\<close> when they were so before.
\<close>

lemma runop_register_ranges:
  "(flagsInv (CPU_new opcodes) \<and> isByte (X (CPU_new opcodes)) \<and> isByte (Y (CPU_new opcodes))) \<and>
   (runop s = (Inr n, s') \<longrightarrow>
      (flagsInv s \<longrightarrow> flagsInv s') \<and>
      (isByte (X s) \<longrightarrow> isByte (X s')) \<and>
      (isByte (Y s) \<longrightarrow> isByte (Y s')) \<and>
      (isByte (A s) \<longrightarrow> isByte (A s')) \<and>
      (stackPage (SP s) \<longrightarrow> stackPage (SP s')))"
proof
  show "flagsInv (CPU_new opcodes) \<and> isByte (X (CPU_new opcodes)) \<and> isByte (Y (CPU_new opcodes))"
    by (simp add: CPU_new_def flagsInv_def flag01_def isByte_def)
next
  show "runop s = (Inr n, s') \<longrightarrow>
      (flagsInv s \<longrightarrow> flagsInv s') \<and>
      (isByte (X s) \<longrightarrow> isByte (X s')) \<and>
      (isByte (Y s) \<longrightarrow> isByte (Y s')) \<and>
      (isByte (A s) \<longrightarrow> isByte (A s')) \<and>
      (stackPage (SP s) \<longrightarrow> stackPage (SP s'))"
  proof
    assume run: "runop s = (Inr n, s')"
    show "(flagsInv s \<longrightarrow> flagsInv s') \<and>
      (isByte (X s) \<longrightarrow> isByte (X s')) \<and>
      (isByte (Y s) \<longrightarrow> isByte (Y s')) \<and>
      (isByte (A s) \<longrightarrow> isByte (A s')) \<and>
      (stackPage (SP s) \<longrightarrow> stackPage (SP s'))"
    proof (cases "lookupOp (loadOpCode s (PC s))")
      case None
      with run show ?thesis by (simp add: runop_None)
    next
      case (Some info)
      define s1 where "s1 = s\<lparr>PC := js_add (PC s) (Num (bytes info))\<rparr>"
      from runop_Some [OF Some] run obtain oper where s': "s' = snd (op info s1 oper)"
        by (auto simp: s1_def)
      have s1: "flagsInv s1 = flagsInv s" "X s1 = X s" "Y s1 = Y s" "A s1 = A s" "SP s1 = SP s"
        by (simp_all add: s1_def flagsInv_def)
      from lookupOp_keeps [OF Some] have
        "X s' = X s1" "Y s' = Y s1" "flagsInv s1 \<longrightarrow> flagsInv s'"
        "isByte (A s1) \<longrightarrow> isByte (A s')" "stackPage (SP s1) \<longrightarrow> stackPage (SP s')"
        unfolding keeps_def s' by blast+
      with s1 show ?thesis by simp
    qed
  qed
qed

text \<open>
  From a CPU inside every range, one completed step of \<^verbatim>\<open>BCC\<close> (opcode \<^verbatim>\<open>0x90\<close>, carry
  clear) leaves \<^verbatim>\<open>PC\<close> at \<open>-254\<close>, through the arms of \<^verbatim>\<open>branch\<close>; and one completed step of
  \<^verbatim>\<open>BRK\<close> leaves the stack pointer at \<^verbatim>\<open>0x01fe\<close>, through \<^verbatim>\<open>push\<close>.
\<close>

lemma runop_BCC_PC:
  "regInv ((CPU_new [144, 0])\<lparr>A := Num 0\<rparr>) \<and>
   runop ((CPU_new [144, 0])\<lparr>A := Num 0\<rparr>) =
     (Inr 2, (CPU_new [144, 0])\<lparr>A := Num 0, PC := Num (- 254)\<rparr>)"
  by (simp add: regInv_def flagsInv_def flag01_def isByte_def isWord16_def
      runop_def lookupOp_def loadOpCode_def ops_get_def table_BCC address_def
      BCC_def branch_def CPU_new_def js_and_def int32_def Let_def)

lemma runop_BRK_SP:
  "regInv ((CPU_new [0])\<lparr>A := Num 0\<rparr>) \<and>
   SP (snd (runop ((CPU_new [0])\<lparr>A := Num 0\<rparr>))) = Num 510"
  apply (simp add: regInv_def flagsInv_def flag01_def isByte_def isWord16_def
      runop_def lookupOp_def loadOpCode_def ops_get_def table_BRK address_def
      BRK_def push_at CPU_new_def Let_def)
  done

text \<open>
  Claim C5. A new CPU, here with the one opcode \<^verbatim>\<open>0x18\<close> (CLC). The constructor leaves \<^verbatim>\<open>A\<close>
  at \<^verbatim>\<open>0x01ff = 511\<close>, outside \<open>[0,255]\<close>, so the invariant does not hold after
  initialization; the first step completes with 2 cycles and leaves \<^verbatim>\<open>A\<close> at 511, so it
  does not hold after that completed step either.
\<close>

theorem regInv_violated:
  "A (CPU_new [24]) = Num 511 \<and>
   \<not> regInv (CPU_new [24]) \<and>
   runop (CPU_new [24]) = (Inr 2, (CPU_new [24])\<lparr>PC := Num 2\<rparr>) \<and>
   A ((CPU_new [24])\<lparr>PC := Num 2\<rparr>) = Num 511 \<and>
   \<not> regInv ((CPU_new [24])\<lparr>PC := Num 2\<rparr>)"
  by (simp add: regInv_def isByte_def runop_def lookupOp_def loadOpCode_def ops_get_def
      table_CLC address_def CLC_def CPU_new_def Let_def)

section \<open>BRK\<close>

text \<open>
  Claim C6. Opcode \<^verbatim>\<open>0x00\<close> on a new CPU with the carry set and the word \<^verbatim>\<open>0x1234\<close> at
  \<^verbatim>\<open>0xfffe\<close>. The table entry has 7 bytes, so \<^verbatim>\<open>PC\<close> is 7 when \<^verbatim>\<open>BRK\<close> runs. \<^verbatim>\<open>BRK\<close> pushes
  the one byte 9 (\<^verbatim>\<open>PC + 2\<close> into a byte array), then the status byte 1, in which bits 4
  and 5 are clear, sets \<^verbatim>\<open>I\<close>, and leaves \<^verbatim>\<open>PC\<close> at 7: it never reads \<^verbatim>\<open>0xfffe\<close>. The step
  returns 2 cycles.
\<close>

theorem runop_BRK:
  "runop ((CPU_new [0])\<lparr>C := 1, mem := (\<lambda>_. 0)(65534 := 52, 65535 := 18)\<rparr>) =
     (Inr 2, (CPU_new [0])\<lparr>C := 1, PC := Num 7,
        mem := (\<lambda>_. 0)(65534 := 52, 65535 := 18, 0 := 9, 511 := 1), SP := Num 510, I := 1\<rparr>)"
  apply (simp add: runop_def lookupOp_def loadOpCode_def ops_get_def table_BRK address_def
      BRK_def push_at CPU_new_def Let_def)
  apply (simp add: packSR_def js_or_def js_shl_def int32_def)
  done

section \<open>Addressing modes\<close>

text \<open>
  Claim C7. Indirect addressing of the pointer \<^verbatim>\<open>0x02ff\<close>, with the byte 1 at \<^verbatim>\<open>0x02ff\<close>, 3
  at \<^verbatim>\<open>0x0200\<close>, 1 at \<^verbatim>\<open>0x0000\<close> and \<^verbatim>\<open>0xaa\<close> at \<^verbatim>\<open>0x0301\<close>. The claim takes the high byte 3
  from \<^verbatim>\<open>0x0200\<close> and reads the address \<^verbatim>\<open>(3 << 8) | 1 = 0x0301\<close>, which holds \<^verbatim>\<open>0xaa\<close>.
  \<^verbatim>\<open>address\<close> takes the high byte from \<^verbatim>\<open>(arg + 1) & 0xff = 0x0000\<close> and reads the address
  \<^verbatim>\<open>1 << (8 + 1) = 0x0200\<close>, which holds 3.
\<close>

theorem address_INDIRECT:
  "address ((CPU_new [])\<lparr>mem := (\<lambda>_. 0)(767 := 1, 512 := 3, 0 := 1, 769 := 170)\<rparr>)
      INDIRECT (Num 767) = (Num 3, 0)"
  by (simp add: address_def mem_get_def CPU_new_def js_and_def js_shl_def int32_def Let_def)

text \<open>
  Claim C8. Absolute-X addressing of \<^verbatim>\<open>0x00ff\<close> with \<^verbatim>\<open>X = 0\<close> and \<^verbatim>\<open>Y = 1\<close>, the byte \<^verbatim>\<open>0xaa\<close> at
  \<^verbatim>\<open>0x00ff\<close> and \<^verbatim>\<open>0xbb\<close> at \<^verbatim>\<open>0x0100\<close>. The claim gives the operand \<^verbatim>\<open>0xaa\<close> and no extra
  cycle. The case \<^verbatim>\<open>ABSOLUTE_X\<close> of \<^verbatim>\<open>address\<close> has no \<^verbatim>\<open>break\<close> and runs on into the case
  \<^verbatim>\<open>ABSOLUTE_Y\<close>: the operand is \<^verbatim>\<open>0xbb\<close>, read at \<^verbatim>\<open>arg + Y\<close>, with one extra cycle.
\<close>

theorem address_ABSOLUTE_X:
  "address ((CPU_new [])\<lparr>Y := Num 1, mem := (\<lambda>_. 0)(255 := 170, 256 := 187)\<rparr>)
      ABSOLUTE_X (Num 255) = (Num 187, 1)"
  by (simp add: address_def case_ABSOLUTE_X_def case_ABSOLUTE_Y_def mem_get_def CPU_new_def
      js_and_def int32_def Let_def)

section \<open>Failure and frame of a step\<close>

text \<open>
  Claim C9. When the byte at \<^verbatim>\<open>PC\<close> has no entry in the opcode table, \<^verbatim>\<open>runop\<close> fails with
  the \<^verbatim>\<open>TypeError\<close> of the destructuring, which reaches the caller, and the CPU is as it
  was before the step: no register, flag or memory cell has changed.
\<close>

theorem runop_unknown_opcode:
  "loadOpCode s (PC s) = Num b \<Longrightarrow> initOpCodeMap b = None \<Longrightarrow> runop s = (Inl TypeError, s)"
  by (simp add: runop_def lookupOp_def)

text \<open>The byte \<^verbatim>\<open>0xea\<close> (NOP on the 6502) has no entry.\<close>

theorem runop_unknown_opcode_witness:
  "loadOpCode (CPU_new [234]) (PC (CPU_new [234])) = Num 234 \<and> initOpCodeMap 234 = None \<and>
   runop (CPU_new [234]) = (Inl TypeError, CPU_new [234])"
proof -
  have h: "loadOpCode (CPU_new [234]) (PC (CPU_new [234])) = Num 234"
    by (simp add: loadOpCode_def ops_get_def CPU_new_def)
  from h table_NOP runop_unknown_opcode [OF h table_NOP] show ?thesis by simp
qed

text \<open>
  Claim C10. One step, from any CPU state and whatever the opcode, leaves the opcode array
  \<^verbatim>\<open>ops\<close> as it was: the only array a handler writes is \<^verbatim>\<open>mem\<close>.
\<close>

theorem runop_ops_unchanged: "ops (snd (runop s)) = ops s"
proof (cases "lookupOp (loadOpCode s (PC s))")
  case None
  then show ?thesis by (simp add: runop_None)
next
  case (Some info)
  from runop_Some [OF Some] obtain oper n where
    r: "runop s = (Inr n, snd (op info (s\<lparr>PC := js_add (PC s) (Num (bytes info))\<rparr>) oper))"
    by blast
  from lookupOp_keeps [OF Some] show ?thesis
    by (simp add: r keeps_def)
qed

end
